theory Spec2Isabelle
  imports Complex_Main
begin

section \<open>Numbers, errors and strings\<close>

text \<open>
  The program computes with Python floats. They are modelled as reals: every arithmetic
  operation is exact, and the one non-number that the pandas code produces on purpose,
  NaN (``no value'' of a warm-up row), is \<open>None\<close> of \<open>real option\<close>. A comparison with
  NaN is false, as in IEEE arithmetic.
\<close>

type_synonym pyfloat = "real option"

datatype py_error = KeyError | ZeroDivisionError | ValueError | IndexError

definition lt_f :: "pyfloat \<Rightarrow> pyfloat \<Rightarrow> bool" where
  "lt_f a b = (case a of None \<Rightarrow> False | Some x \<Rightarrow> (case b of None \<Rightarrow> False | Some y \<Rightarrow> x < y))"

definition le_f :: "pyfloat \<Rightarrow> pyfloat \<Rightarrow> bool" where
  "le_f a b = (case a of None \<Rightarrow> False | Some x \<Rightarrow> (case b of None \<Rightarrow> False | Some y \<Rightarrow> x \<le> y))"

definition abs_f :: "pyfloat \<Rightarrow> pyfloat" where
  "abs_f a = map_option abs a"

text \<open>Python's \<open>round(x, n)\<close>: to the nearest multiple of \<open>10\<^sup>-\<^sup>n\<close>, a tie to the even one.\<close>

definition round_half_even :: "real \<Rightarrow> int" where
  "round_half_even x =
     (let f = \<lfloor>x\<rfloor>; d = x - of_int f
      in if d < 1 / 2 then f else if 1 / 2 < d then f + 1 else if even f then f else f + 1)"

definition py_round :: "real \<Rightarrow> nat \<Rightarrow> real" where
  "py_round x n = of_int (round_half_even (x * 10 ^ n)) / 10 ^ n"

text \<open>\<open>str(n)\<close> for an integer, used by the f-strings.\<close>

function str_digits :: "int \<Rightarrow> string" where
  "str_digits n =
     (if n < 10 then [char_of (48 + n)]
      else str_digits (n div 10) @ [char_of (48 + n mod 10)])"
  by pat_completeness auto
termination
  by (relation "measure nat") auto

declare str_digits.simps [simp del]

definition str_int :: "int \<Rightarrow> string" where
  "str_int i = (if i < 0 then CHR ''-'' # str_digits (- i) else str_digits i)"

section \<open>The virtual trade simulator (core/exchange/huobi\_executor.py)\<close>

text \<open>
  A signal is the dictionary that \<open>generate_signal\<close> returns and \<open>execute_virtual_trade\<close>
  reads. A key that the dictionary does not have is \<open>None\<close>; reading it raises KeyError.
  The value of \<open>stop_loss\<close> and \<open>take_profit\<close> is a float, which may be NaN.
\<close>

record signal =
  action :: string
  reason :: "string option"
  confidence :: "real option"
  stop_loss :: "pyfloat option"
  take_profit :: "pyfloat option"
  leverage :: "int option"

text \<open>
  The trade dictionary built by \<open>execute_virtual_trade\<close>. A timestamp is the integer
  number of seconds since the epoch; \<open>isoformat()\<close> is kept as that number.
\<close>

record trade =
  trade_id :: string
  side :: string
  open_time :: int
  open_price :: real
  close_time :: int
  close_price :: real
  pnl :: real
  fee :: real
  net_pnl :: real
  balance_after :: real
  trade_reason :: string

text \<open>
  The state of a \<open>TradeExecutor\<close> that the virtual path touches. \<open>db_trades\<close> is the
  persistence collaborator: the records handed to \<open>db.save_virtual_trade\<close>, in order.
\<close>

record executor =
  virtual_balance :: real
  virtual_trades :: "trade list"
  db_trades :: "trade list"

definition reset_virtual_account :: "executor \<Rightarrow> executor" where
  "reset_virtual_account ex = ex\<lparr>virtual_balance := 100, virtual_trades := []\<rparr>"

definition new_executor :: executor where
  "new_executor = \<lparr>virtual_balance = 100, virtual_trades = [], db_trades = []\<rparr>"

definition save_virtual_trade :: "trade \<Rightarrow> executor \<Rightarrow> executor" where
  "save_virtual_trade t ex = ex\<lparr>db_trades := db_trades ex @ [t]\<rparr>"

datatype exec_result = Ignored | Filled trade | Failed py_error

text \<open>Float division as Python does it: a zero divisor raises.\<close>

definition py_div :: "real \<Rightarrow> real \<Rightarrow> py_error + real" where
  "py_div a b = (if b = 0 then Inl ZeroDivisionError else Inr (a / b))"

text \<open>
  Lines 101 to 111 of \<open>execute_virtual_trade\<close>: the fill-time pnl. The keys are read in
  the order of the source (\<open>take_profit\<close> only when the stop-loss test is false), and
  every action other than \<open>buy\<close> takes the \<open>else\<close> branch.
\<close>

definition fill_pnl :: "signal \<Rightarrow> real \<Rightarrow> real \<Rightarrow> real \<Rightarrow> py_error + real" where
  "fill_pnl sg size_usd fee_v exec_price =
     (if action sg = ''buy'' then
        (case stop_loss sg of None \<Rightarrow> Inl KeyError | Some sl \<Rightarrow>
           if le_f (Some exec_price) sl then
             (case py_div (- size_usd * (exec_price - the sl)) exec_price of
                Inl e \<Rightarrow> Inl e | Inr q \<Rightarrow> Inr (q - fee_v))
           else
             (case take_profit sg of None \<Rightarrow> Inl KeyError | Some tp \<Rightarrow>
                if le_f tp (Some exec_price) then
                  (case py_div (size_usd * (exec_price - the tp)) exec_price of
                     Inl e \<Rightarrow> Inl e | Inr q \<Rightarrow> Inr (q - fee_v))
                else Inr 0))
      else
        (case stop_loss sg of None \<Rightarrow> Inl KeyError | Some sl \<Rightarrow>
           if le_f sl (Some exec_price) then
             (case py_div (- size_usd * (exec_price - the sl)) exec_price of
                Inl e \<Rightarrow> Inl e | Inr q \<Rightarrow> Inr (q - fee_v))
           else
             (case take_profit sg of None \<Rightarrow> Inl KeyError | Some tp \<Rightarrow>
                if le_f (Some exec_price) tp then
                  (case py_div (size_usd * (the tp - exec_price)) exec_price of
                     Inl e \<Rightarrow> Inl e | Inr q \<Rightarrow> Inr (q - fee_v))
                else Inr 0)))"

text \<open>
  Lines 95 to 98: the position size, and the execution price, which the slippage moves
  against the direction of the order.
\<close>

definition position_size :: "executor \<Rightarrow> real" where
  "position_size ex = min 50 (virtual_balance ex * 0.8)"

definition exec_price_of :: "signal \<Rightarrow> real \<Rightarrow> real \<Rightarrow> real" where
  "exec_price_of sg price slippage =
     (if action sg = ''buy'' then price * (1 + slippage) else price * (1 - slippage))"

text \<open>
  \<open>execute_virtual_trade(signal, price, timestamp)\<close>. The arguments that the source
  takes from its surroundings are explicit: \<open>fee_rate_taker\<close> is
  \<open>Config.EXCHANGE.fee_rate_taker\<close>, and \<open>slippage\<close> is the number that the random
  \<open>calculate_slippage(price, 'market')\<close> returns in this call. Every exception raised
  inside the \<open>try\<close> block ends in \<open>Failed\<close>, with the state as the block left it.
\<close>

definition execute_virtual_trade ::
  "executor \<Rightarrow> real \<Rightarrow> signal \<Rightarrow> real \<Rightarrow> real \<Rightarrow> int \<Rightarrow> exec_result \<times> executor" where
  "execute_virtual_trade ex fee_rate_taker sg price slippage timestamp =
     (if action sg = ''hold'' then (Ignored, ex)
      else
        let size_usd = position_size ex;
            fee_v = size_usd * fee_rate_taker;
            exec_price = exec_price_of sg price slippage
        in case fill_pnl sg size_usd fee_v exec_price of
             Inl e \<Rightarrow> (Failed e, ex)
           | Inr pnl_v \<Rightarrow>
               (let is_bankrupt = virtual_balance ex + pnl_v < 10;
                    ex1 = (if is_bankrupt then reset_virtual_account ex else ex);
                    new_balance = (if is_bankrupt then 100 else virtual_balance ex + pnl_v)
                in (case reason sg of
                      None \<Rightarrow> (Failed KeyError, ex1)
                    | Some r \<Rightarrow>
                        let t = \<lparr>trade_id = ''VIRT_'' @ str_int timestamp,
                                 side = action sg,
                                 open_time = timestamp,
                                 open_price = py_round exec_price 4,
                                 close_time = timestamp,
                                 close_price = py_round exec_price 4,
                                 pnl = py_round pnl_v 6,
                                 fee = py_round fee_v 6,
                                 net_pnl = py_round (pnl_v - fee_v) 6,
                                 balance_after = py_round new_balance 4,
                                 trade_reason = r\<rparr>;
                            ex2 = save_virtual_trade t ex1
                        in (Filled t,
                            ex2\<lparr>virtual_balance := new_balance,
                                virtual_trades := virtual_trades ex2 @ [t]\<rparr>))))"

subsection \<open>Concrete simulator inputs\<close>

text \<open>
  An earlier record in the buffer, an account close to the floor, and a sell order whose
  stop is far below the market: the fill loses 8.64576 and the balance would fall to
  3.35424.
\<close>

definition earlier_trade :: trade where
  "earlier_trade =
     \<lparr>trade_id = ''VIRT_1704066300'', side = ''sell'', open_time = 1704066300,
      open_price = 2990, close_time = 1704066300, close_price = 2990,
      pnl = 0, fee = 0.00576, net_pnl = - 0.00576, balance_after = 12,
      trade_reason = ''PAFER Bearish Resonance(0/4)+Momentum+Timely''\<rparr>"

definition low_account :: executor where
  "low_account =
     \<lparr>virtual_balance = 12, virtual_trades = [earlier_trade], db_trades = [earlier_trade]\<rparr>"

definition deep_stop_sell :: signal where
  "deep_stop_sell =
     \<lparr>action = ''sell'', reason = Some ''PAFER Bearish Resonance(0/4)+Momentum+Timely'',
      confidence = Some 0.65, stop_loss = Some (Some 299.7), take_profit = Some (Some 200),
      leverage = Some 20\<rparr>"

text \<open>The same order as a dictionary without the key \<open>reason\<close>.\<close>

definition sell_without_reason :: signal where
  "sell_without_reason = deep_stop_sell\<lparr>reason := None\<rparr>"

text \<open>An account of 20.01 and a sell order stopped out 17 below the execution price.\<close>

definition account_20 :: executor where
  "account_20 = \<lparr>virtual_balance = 20.01, virtual_trades = [], db_trades = []\<rparr>"

definition stopped_sell :: signal where
  "stopped_sell =
     \<lparr>action = ''sell'', reason = Some ''PAFER Bearish Resonance(0/4)+Momentum+Timely'',
      confidence = Some 0.65, stop_loss = Some (Some 2980), take_profit = Some (Some 2800),
      leverage = Some 20\<rparr>"

definition stopped_sell_trade :: trade where
  "stopped_sell_trade =
     \<lparr>trade_id = ''VIRT_1704067200'', side = ''sell'', open_time = 1704067200,
      open_price = 2997, close_time = 1704067200, close_price = 2997,
      pnl = - 0.100408, fee = 0.009605, net_pnl = - 0.110012, balance_after = 19.9096,
      trade_reason = ''PAFER Bearish Resonance(0/4)+Momentum+Timely''\<rparr>"

section \<open>The indicator engine (core/strategy/indicators.py)\<close>

text \<open>
  A DataFrame of OHLCV bars is a list of rows in the order of the frame. The inputs are
  numbers (no NaN among them); NaN appears only in the derived columns.
\<close>

record bar =
  timestamp :: int
  bar_open :: real
  high :: real
  low :: real
  close :: real
  volume :: real

text \<open>\<open>StrategyConfig\<close> of config/settings.py.\<close>

record strategy_config =
  macd_fast :: int
  macd_slow :: int
  macd_signal :: int
  kdj_period :: int
  kdj_smooth_k :: int
  kdj_smooth_d :: int
  ma_short :: int
  ma_mid :: int
  ma_long :: int
  max_klines_for_resonance :: int
  momentum_threshold_pct :: real

definition default_config :: strategy_config where
  "default_config =
     \<lparr>macd_fast = 3, macd_slow = 18, macd_signal = 6, kdj_period = 9, kdj_smooth_k = 3,
      kdj_smooth_d = 3, ma_short = 5, ma_mid = 10, ma_long = 45,
      max_klines_for_resonance = 4, momentum_threshold_pct = 15\<rparr>"

text \<open>A row of the frame that \<open>add_paferr_features\<close> returns: the bar and its features.\<close>

record row = bar +
  macd_line :: real
  macd_signal_line :: real
  macd_hist :: real
  macd_drift :: int
  macd_momentum_pct :: pyfloat
  kdj_k :: pyfloat
  kdj_d :: pyfloat
  kdj_j :: pyfloat
  kdj_k_slope :: real
  ma5 :: pyfloat
  ma10 :: pyfloat
  ma45 :: pyfloat
  ma45_stable :: int

subsection \<open>The pandas operations\<close>

text \<open>
  \<open>Series.ewm(span=s, adjust=False).mean()\<close> with \<open>\<alpha> = 2 / (s + 1)\<close>: the first value
  is the first observation and each later one is \<open>(1 - \<alpha>) y + \<alpha> x\<close>. pandas raises
  ValueError for a span below 1; the callers check that with \<open>span_ok\<close>.
\<close>

definition span_ok :: "int \<Rightarrow> bool" where
  "span_ok s = (1 \<le> s)"

definition alpha_of_span :: "int \<Rightarrow> real" where
  "alpha_of_span s = 2 / (of_int s + 1)"

fun ewm_from :: "real \<Rightarrow> real \<Rightarrow> real list \<Rightarrow> real list" where
  "ewm_from a y [] = []"
| "ewm_from a y (x # xs) = (let y' = (1 - a) * y + a * x in y' # ewm_from a y' xs)"

fun ewm_mean :: "real \<Rightarrow> real list \<Rightarrow> real list" where
  "ewm_mean a [] = []"
| "ewm_mean a (x # xs) = x # ewm_from a x xs"

text \<open>
  The same on a column with NaN, as pandas computes it (\<open>ignore_na=False\<close>): the state
  is the weighted value so far and the weight \<open>old_wt\<close> it has kept; a NaN leaves the
  value and lets the weight decay, and the output is NaN until the first observation.
\<close>

fun ewm_na :: "real \<Rightarrow> pyfloat \<Rightarrow> real \<Rightarrow> pyfloat list \<Rightarrow> pyfloat list" where
  "ewm_na a w old_wt [] = []"
| "ewm_na a None old_wt (x # xs) = x # ewm_na a x 1 xs"
| "ewm_na a (Some w) old_wt (None # xs) = Some w # ewm_na a (Some w) (old_wt * (1 - a)) xs"
| "ewm_na a (Some w) old_wt (Some x # xs) =
     (let w' = (old_wt * (1 - a) * w + a * x) / (old_wt * (1 - a) + a)
      in Some w' # ewm_na a (Some w') 1 xs)"

text \<open>\<open>Series.shift(1)\<close>: every value moves down one row and the first row is NaN.\<close>

definition shift1 :: "pyfloat list \<Rightarrow> pyfloat list" where
  "shift1 xs = (case xs of [] \<Rightarrow> [] | _ # _ \<Rightarrow> None # butlast xs)"

text \<open>
  \<open>Series.rolling(w)\<close> followed by an aggregate: every row aggregates the \<open>w\<close> rows
  that end at it, and is NaN while fewer than \<open>w\<close> rows exist (and everywhere for
  \<open>w = 0\<close>). \<open>seen\<close> holds the rows read so far, the latest first, so the window of a
  row is the first \<open>w\<close> of them. pandas raises ValueError for a negative window; the
  callers check that with \<open>window_ok\<close>.
\<close>

definition window_ok :: "int \<Rightarrow> bool" where
  "window_ok w = (0 \<le> w)"

fun rolling_acc ::
  "(real list \<Rightarrow> real) \<Rightarrow> int \<Rightarrow> real list \<Rightarrow> real list \<Rightarrow> pyfloat list" where
  "rolling_acc agg w seen [] = []"
| "rolling_acc agg w seen (x # xs) =
     (if 0 < w \<and> nat w \<le> length (x # seen) then Some (agg (take (nat w) (x # seen)))
      else None) # rolling_acc agg w (x # seen) xs"

definition rolling :: "(real list \<Rightarrow> real) \<Rightarrow> int \<Rightarrow> real list \<Rightarrow> pyfloat list" where
  "rolling agg w xs = rolling_acc agg w [] xs"

definition agg_min :: "real list \<Rightarrow> real" where
  "agg_min ws = Min (set ws)"

definition agg_max :: "real list \<Rightarrow> real" where
  "agg_max ws = Max (set ws)"

definition agg_mean :: "real list \<Rightarrow> real" where
  "agg_mean ws = sum_list ws / of_nat (length ws)"

subsection \<open>calculate\_macd\<close>

record macd_columns =
  col_macd_line :: "real list"
  col_macd_signal :: "real list"
  col_macd_hist :: "real list"
  col_macd_drift :: "int list"
  col_macd_momentum_pct :: "pyfloat list"

text \<open>
  The drift flag of one row, from \<open>macd_line\<close>, \<open>signal_line\<close> and the shifted \<open>diff\<close>,
  with \<open>diff = macd_line - signal_line\<close> (lines 16 to 18 of the function).
\<close>

definition is_drift :: "real \<Rightarrow> real \<Rightarrow> pyfloat \<Rightarrow> bool" where
  "is_drift ml sl diff_prev =
     ((ml - sl > 0 \<and> lt_f diff_prev (Some (ml - sl)) \<and> ml < sl) \<or>
      (ml - sl < 0 \<and> lt_f (Some (ml - sl)) diff_prev \<and> ml > sl))"

definition hist_momentum :: "real \<Rightarrow> pyfloat \<Rightarrow> pyfloat" where
  "hist_momentum area area_prev =
     (case area_prev of None \<Rightarrow> None
      | Some p \<Rightarrow> Some ((area - p) / (p + 1 / 10 ^ 8) * 100))"

definition calculate_macd :: "real list \<Rightarrow> int \<Rightarrow> int \<Rightarrow> int \<Rightarrow> py_error + macd_columns" where
  "calculate_macd closes fast slow signal =
     (if \<not> (span_ok fast \<and> span_ok slow \<and> span_ok signal) then Inl ValueError
      else
        let ema_fast = ewm_mean (alpha_of_span fast) closes;
            ema_slow = ewm_mean (alpha_of_span slow) closes;
            macd_line_v = map2 (-) ema_fast ema_slow;
            signal_line = ewm_mean (alpha_of_span signal) macd_line_v;
            macd_hist_v = map2 (-) macd_line_v signal_line;
            diff = map2 (-) macd_line_v signal_line;
            drift = map (\<lambda>(ml, sl, dp). is_drift ml sl dp)
                      (zip macd_line_v (zip signal_line (shift1 (map Some diff))));
            hist_area = map abs macd_hist_v;
            momentum = map2 hist_momentum hist_area (shift1 (map Some hist_area))
        in Inr \<lparr>col_macd_line = macd_line_v, col_macd_signal = signal_line,
                col_macd_hist = macd_hist_v,
                col_macd_drift = map (\<lambda>b. if b then 1 else 0) drift,
                col_macd_momentum_pct = momentum\<rparr>)"

subsection \<open>calculate\_kdj\<close>

record kdj_columns =
  col_kdj_k :: "pyfloat list"
  col_kdj_d :: "pyfloat list"
  col_kdj_j :: "pyfloat list"
  col_kdj_k_slope :: "real list"

text \<open>
  \<open>rsv = (close - ll) / (hh - ll + 1e-8) * 100\<close>. The division is numpy's: a zero
  denominator (a rolling high that lies exactly \<open>1e-8\<close> below the rolling low) gives an
  infinity or NaN and no exception; the model keeps that row as NaN.
\<close>

definition rsv_of :: "real \<Rightarrow> pyfloat \<Rightarrow> pyfloat \<Rightarrow> pyfloat" where
  "rsv_of c ll hh =
     (case ll of None \<Rightarrow> None
      | Some l \<Rightarrow>
          (case hh of None \<Rightarrow> None
           | Some h \<Rightarrow>
               if h - l + 1 / 10 ^ 8 = 0 then None
               else Some ((c - l) / (h - l + 1 / 10 ^ 8) * 100)))"

definition kdj_j_of :: "pyfloat \<Rightarrow> pyfloat \<Rightarrow> pyfloat" where
  "kdj_j_of k d =
     (case k of None \<Rightarrow> None
      | Some kv \<Rightarrow> (case d of None \<Rightarrow> None | Some dv \<Rightarrow> Some (3 * kv - 2 * dv)))"

text \<open>\<open>k.diff().fillna(0) * 100\<close>.\<close>

definition k_slope_of :: "pyfloat \<Rightarrow> pyfloat \<Rightarrow> real" where
  "k_slope_of k k_prev =
     (case k of None \<Rightarrow> 0
      | Some kv \<Rightarrow> (case k_prev of None \<Rightarrow> 0 | Some pv \<Rightarrow> (kv - pv) * 100))"

definition calculate_kdj ::
  "real list \<Rightarrow> real list \<Rightarrow> real list \<Rightarrow> int \<Rightarrow> int \<Rightarrow> int \<Rightarrow> py_error + kdj_columns" where
  "calculate_kdj lows highs closes period smooth_k smooth_d =
     (if \<not> (window_ok period \<and> span_ok smooth_k \<and> span_ok smooth_d) then Inl ValueError
      else
        let ll = rolling agg_min period lows;
            hh = rolling agg_max period highs;
            rsv = map (\<lambda>(c, l, h). rsv_of c l h) (zip closes (zip ll hh));
            k = ewm_na (alpha_of_span smooth_k) None 1 rsv;
            d = ewm_na (alpha_of_span smooth_d) None 1 k;
            j = map2 kdj_j_of k d;
            k_slope = map2 k_slope_of k (shift1 k)
        in Inr \<lparr>col_kdj_k = k, col_kdj_d = d, col_kdj_j = j, col_kdj_k_slope = k_slope\<rparr>)"

subsection \<open>calculate\_ma\<close>

record ma_columns =
  col_ma5 :: "pyfloat list"
  col_ma10 :: "pyfloat list"
  col_ma45 :: "pyfloat list"
  col_ma45_stable :: "int list"

definition calculate_ma :: "real list \<Rightarrow> int \<Rightarrow> int \<Rightarrow> int \<Rightarrow> py_error + ma_columns" where
  "calculate_ma closes ma5_w ma10_w ma45_w =
     (if \<not> (window_ok ma5_w \<and> window_ok ma10_w \<and> window_ok ma45_w) then Inl ValueError
      else
        let m5 = rolling agg_mean ma5_w closes;
            m10 = rolling agg_mean ma10_w closes;
            m45 = rolling agg_mean ma45_w closes;
            stable = map (\<lambda>(c, m, cp, mp). le_f m (Some c) \<and> le_f mp cp)
                       (zip closes (zip m45 (zip (shift1 (map Some closes)) (shift1 m45))))
        in Inr \<lparr>col_ma5 = m5, col_ma10 = m10, col_ma45 = m45,
                col_ma45_stable = map (\<lambda>b. if b then 1 else 0) stable\<rparr>)"

subsection \<open>add\_paferr\_features\<close>

text \<open>The feature frame: every row is a bar with the values of all columns at that row.\<close>

definition make_rows ::
  "'a bar_scheme list \<Rightarrow> macd_columns \<Rightarrow> kdj_columns \<Rightarrow> ma_columns \<Rightarrow> row list" where
  "make_rows df m k a =
     map (\<lambda>(b, (ml, sg, h, dr, mo), (kk, kd, kj, ks), (m5, m10, m45, st)).
            \<lparr>timestamp = timestamp b, bar_open = bar_open b, high = high b, low = low b,
             close = close b, volume = volume b,
             macd_line = ml, macd_signal_line = sg, macd_hist = h, macd_drift = dr,
             macd_momentum_pct = mo,
             kdj_k = kk, kdj_d = kd, kdj_j = kj, kdj_k_slope = ks,
             ma5 = m5, ma10 = m10, ma45 = m45, ma45_stable = st\<rparr>)
         (zip df
            (zip (zip (col_macd_line m) (zip (col_macd_signal m) (zip (col_macd_hist m)
                    (zip (col_macd_drift m) (col_macd_momentum_pct m)))))
               (zip (zip (col_kdj_k k) (zip (col_kdj_d k) (zip (col_kdj_j k)
                       (col_kdj_k_slope k))))
                  (zip (col_ma5 a) (zip (col_ma10 a) (zip (col_ma45 a)
                     (col_ma45_stable a)))))))"

definition add_paferr_features :: "'a bar_scheme list \<Rightarrow> strategy_config \<Rightarrow> py_error + row list" where
  "add_paferr_features df cfg =
     (case calculate_macd (map close df) (macd_fast cfg) (macd_slow cfg) (macd_signal cfg) of
        Inl e \<Rightarrow> Inl e
      | Inr m \<Rightarrow>
          (case calculate_kdj (map low df) (map high df) (map close df)
                  (kdj_period cfg) (kdj_smooth_k cfg) (kdj_smooth_d cfg) of
             Inl e \<Rightarrow> Inl e
           | Inr k \<Rightarrow>
               (case calculate_ma (map close df) (ma_short cfg) (ma_mid cfg) (ma_long cfg) of
                  Inl e \<Rightarrow> Inl e
                | Inr a \<Rightarrow> Inr (make_rows df m k a))))"

text \<open>The configurations for which pandas accepts every span and every window.\<close>

definition config_ok :: "strategy_config \<Rightarrow> bool" where
  "config_ok cfg =
     (span_ok (macd_fast cfg) \<and> span_ok (macd_slow cfg) \<and> span_ok (macd_signal cfg) \<and>
      window_ok (kdj_period cfg) \<and> span_ok (kdj_smooth_k cfg) \<and> span_ok (kdj_smooth_d cfg) \<and>
      window_ok (ma_short cfg) \<and> window_ok (ma_mid cfg) \<and> window_ok (ma_long cfg))"

section \<open>The resonance signal engine (core/strategy/paferr\_strategy.py)\<close>

text \<open>
  \<open>df.resample(rule, on='timestamp').agg(...).dropna()\<close> for a rule of \<open>width\<close> seconds
  that divides a day: the bars are grouped by the bin \<open>timestamp div width\<close>, the bins
  come in ascending order, a bin without bars is dropped, and a bin aggregates its bars
  in the order of the frame (open = first, high = max, low = min, close = last,
  volume = sum).
\<close>

definition resample :: "int \<Rightarrow> 'a bar_scheme list \<Rightarrow> bar list" where
  "resample width df =
     map (\<lambda>k. let g = filter (\<lambda>b. timestamp b div width = k) df
               in \<lparr>timestamp = k * width, bar_open = bar_open (hd g),
                   high = Max (set (map high g)), low = Min (set (map low g)),
                   close = close (last g), volume = sum_list (map volume g)\<rparr>)
         (sort (remdups (map (\<lambda>b. timestamp b div width) df)))"

text \<open>
  The frame of a higher timeframe in \<open>_check_resonance\<close>: the aggregate with its features
  when it has at least 50 bars, the empty frame otherwise.
\<close>

definition timeframe_features ::
  "int \<Rightarrow> 'a bar_scheme list \<Rightarrow> strategy_config \<Rightarrow> py_error + row list" where
  "timeframe_features width df cfg =
     (let agg = resample width df
      in if 50 \<le> length agg then add_paferr_features agg cfg else Inr [])"

text \<open>
  The value of \<open>get_trend_status\<close> is Python's \<open>False\<close> when the guard returns, and a
  numpy boolean when the two comparisons are evaluated. The caller's test
  \<open>resonance['4h'] is False\<close> tells them apart: it holds for Python's \<open>False\<close> only.
\<close>

datatype py_bool = PyBool bool | NpBool bool

fun truthy :: "py_bool \<Rightarrow> bool" where
  "truthy (PyBool b) = b"
| "truthy (NpBool b) = b"

definition get_trend_status :: "row list \<Rightarrow> py_bool" where
  "get_trend_status df =
     (if length df < 2 then PyBool False
      else NpBool (lt_f (ma45 (last df)) (Some (close (last df))) \<and> 0 < macd_hist (last df)))"

record resonance =
  tf_15m :: py_bool
  tf_30m :: py_bool
  tf_1h :: py_bool
  tf_4h :: py_bool

text \<open>
  \<open>_check_resonance(df)\<close>, called with the frame that already has its features (the
  column \<open>ma45\<close> is there, so the 15-minute frame is the argument itself).
\<close>

definition check_resonance :: "strategy_config \<Rightarrow> row list \<Rightarrow> py_error + resonance" where
  "check_resonance cfg df =
     (case timeframe_features 1800 df cfg of
        Inl e \<Rightarrow> Inl e
      | Inr df_30m \<Rightarrow>
          (case timeframe_features 3600 df cfg of
             Inl e \<Rightarrow> Inl e
           | Inr df_1h \<Rightarrow>
               (case timeframe_features 14400 df cfg of
                  Inl e \<Rightarrow> Inl e
                | Inr df_4h \<Rightarrow>
                    Inr \<lparr>tf_15m = get_trend_status df, tf_30m = get_trend_status df_30m,
                         tf_1h = get_trend_status df_1h, tf_4h = get_trend_status df_4h\<rparr>)))"

definition total_resonance :: "resonance \<Rightarrow> nat" where
  "total_resonance r =
     length (filter truthy [tf_15m r, tf_30m r, tf_1h r, tf_4h r])"

definition is_bullish :: "resonance \<Rightarrow> bool" where
  "is_bullish r = (3 \<le> total_resonance r)"

definition is_bearish :: "resonance \<Rightarrow> bool" where
  "is_bearish r = (total_resonance r = 0 \<and> tf_4h r = PyBool False)"

text \<open>
  \<open>df.tail(n)\<close>: the last \<open>n\<close> rows, no row for \<open>n = 0\<close>, and all rows but the first
  \<open>-n\<close> for a negative \<open>n\<close>.
\<close>

definition tail_rows :: "int \<Rightarrow> 'a list \<Rightarrow> 'a list" where
  "tail_rows n xs =
     (if n = 0 then [] else if 0 < n then drop (length xs - nat n) xs else drop (nat (- n)) xs)"

text \<open>
  The three gates read the last rows of the frame; \<open>generate_signal\<close> calls them on a
  frame of at least 50 rows, so \<open>iloc[-1]\<close> is the last row.
\<close>

definition check_momentum :: "strategy_config \<Rightarrow> row list \<Rightarrow> bool" where
  "check_momentum cfg df =
     (lt_f (Some (momentum_threshold_pct cfg)) (abs_f (macd_momentum_pct (last df))) \<and>
      25 < \<bar>kdj_k_slope (last df)\<bar>)"

definition check_timeliness :: "strategy_config \<Rightarrow> row list \<Rightarrow> bool" where
  "check_timeliness cfg df =
     (max_klines_for_resonance cfg \<le>
        int (length (filter (\<lambda>r. lt_f (ma45 r) (Some (close r)))
                       (tail_rows (max_klines_for_resonance cfg) df))))"

definition check_drift_accumulation :: "row list \<Rightarrow> int" where
  "check_drift_accumulation df = sum_list (map macd_drift (tail_rows 5 df))"

text \<open>
  The state of a \<open>PAFERStrategy\<close>. \<open>signal_cooldown\<close> is set to 15 minutes by the
  constructor and never written again.
\<close>

record strategy =
  config :: strategy_config
  last_signal_time :: "int option"
  signal_cooldown :: int

definition new_strategy :: "strategy_config \<Rightarrow> strategy" where
  "new_strategy cfg = \<lparr>config = cfg, last_signal_time = None, signal_cooldown = 900\<rparr>"

definition reset :: "strategy \<Rightarrow> strategy" where
  "reset st = st\<lparr>last_signal_time := None\<rparr>"

definition leverage_of :: "int \<Rightarrow> int" where
  "leverage_of drift_count = min 50 (max 20 (20 + drift_count * 5))"

definition buy_signal :: "real \<Rightarrow> row \<Rightarrow> nat \<Rightarrow> int \<Rightarrow> signal" where
  "buy_signal stop_loss_buffer latest n_res drift_count =
     \<lparr>action = ''buy'',
      reason = Some (''PAFER Bullish Resonance('' @ str_int (int n_res) @
                     ''/4)+Momentum+Timely''),
      confidence = Some (0.7 + 0.1 * of_int drift_count),
      stop_loss = Some (map_option (\<lambda>m. m * (1 - stop_loss_buffer)) (ma45 latest)),
      take_profit = Some (Some (high latest + 1.5 * (high latest - low latest))),
      leverage = Some (leverage_of drift_count)\<rparr>"

definition sell_signal :: "real \<Rightarrow> row \<Rightarrow> int \<Rightarrow> signal" where
  "sell_signal stop_loss_buffer latest drift_count =
     \<lparr>action = ''sell'',
      reason = Some ''PAFER Bearish Resonance(0/4)+Momentum+Timely'',
      confidence = Some (0.65 + 0.1 * of_int drift_count),
      stop_loss = Some (map_option (\<lambda>m. m * (1 + stop_loss_buffer)) (ma45 latest)),
      take_profit = Some (Some (low latest - 1.5 * (high latest - low latest))),
      leverage = Some (leverage_of drift_count)\<rparr>"

definition hold_signal :: signal where
  "hold_signal =
     \<lparr>action = ''hold'', reason = Some ''No valid PAFER signal'', confidence = None,
      stop_loss = None, take_profit = None, leverage = None\<rparr>"

text \<open>
  \<open>generate_signal(df)\<close>. \<open>stop_loss_buffer\<close> is \<open>Config.RISK.stop_loss_buffer\<close>. The
  result is the exception that the call raises, or the returned value: \<open>None\<close> (no
  signal) or a signal dictionary. The state changes only when a buy or a sell is returned.
\<close>

definition generate_signal ::
  "strategy \<Rightarrow> real \<Rightarrow> bar list \<Rightarrow> (py_error + signal option) \<times> strategy" where
  "generate_signal st stop_loss_buffer df0 =
     (if length df0 < 50 then (Inr None, st)
      else
        (case add_paferr_features df0 (config st) of
           Inl e \<Rightarrow> (Inl e, st)
         | Inr df \<Rightarrow>
             (let now = timestamp (last df0)
              in if (case last_signal_time st of
                       None \<Rightarrow> False
                     | Some t \<Rightarrow> now - t < signal_cooldown st)
                 then (Inr None, st)
                 else
                   (case check_resonance (config st) df of
                      Inl e \<Rightarrow> (Inl e, st)
                    | Inr res \<Rightarrow>
                        (let has_momentum = check_momentum (config st) df;
                             is_timely = check_timeliness (config st) df;
                             drift_count = check_drift_accumulation df
                         in if is_bullish res \<and> has_momentum \<and> is_timely then
                              (Inr (Some (buy_signal stop_loss_buffer (last df)
                                            (total_resonance res) drift_count)),
                               st\<lparr>last_signal_time := Some now\<rparr>)
                            else if is_bearish res \<and> has_momentum \<and> is_timely then
                              (Inr (Some (sell_signal stop_loss_buffer (last df) drift_count)),
                               st\<lparr>last_signal_time := Some now\<rparr>)
                            else (Inr (Some hold_signal), st))))))"

text \<open>
  A sequence of \<open>generate_signal\<close> calls on one strategy instance. Every call comes with
  the configuration that the instance holds at that moment (the optimizer and the
  dashboard write \<open>strategy.config\<close> between calls), the stop-loss buffer and the frame;
  the state that a call leaves is the state that the next one finds. The result is the
  list of what the calls returned or raised.
\<close>

fun run_calls ::
  "strategy \<Rightarrow> (strategy_config \<times> real \<times> bar list) list \<Rightarrow> (py_error + signal option) list" where
  "run_calls st [] = []"
| "run_calls st ((cfg, stop_loss_buffer, df) # calls) =
     fst (generate_signal (st\<lparr>config := cfg\<rparr>) stop_loss_buffer df) #
     run_calls (snd (generate_signal (st\<lparr>config := cfg\<rparr>) stop_loss_buffer df)) calls"

text \<open>The bar time that a call reads: the timestamp of the last bar of its frame.\<close>

definition call_time :: "strategy_config \<times> real \<times> bar list \<Rightarrow> int" where
  "call_time c = timestamp (last (snd (snd c)))"

definition is_order :: "py_error + signal option \<Rightarrow> bool" where
  "is_order r =
     (case r of Inr (Some sg) \<Rightarrow> action sg = ''buy'' \<or> action sg = ''sell'' | _ \<Rightarrow> False)"

section \<open>The objective of the optimizer (utils/optimization.py)\<close>

text \<open>
  Lines 57 to 67 of \<open>_objective_function\<close>: the score of the trades that the replay has
  collected. \<open>np.std\<close> is the population standard deviation.
\<close>

definition np_mean :: "real list \<Rightarrow> real" where
  "np_mean xs = sum_list xs / of_nat (length xs)"

definition np_std :: "real list \<Rightarrow> real" where
  "np_std xs = sqrt (np_mean (map (\<lambda>x. (x - np_mean xs)\<^sup>2) xs))"

definition objective_score :: "trade list \<Rightarrow> real" where
  "objective_score trades =
     (if length trades < 5 then - 1
      else
        let pnls = map net_pnl trades;
            returns = map (\<lambda>p. p / 100) pnls
        in if length returns = 0 \<or> np_std returns = 0 then - 1
           else
             let sharpe = np_mean returns / (np_std returns + 1 / 10 ^ 8) * sqrt (252 * 4);
                 win_rate = of_nat (length (filter (\<lambda>p. 0 < p) pnls)) / of_nat (length pnls)
             in 0.7 * sharpe + 0.3 * win_rate)"

text \<open>
  Lines 44 to 54: the replay. Step \<open>i\<close> evaluates the window of the first \<open>i + 1\<close> bars
  with the strategy, executes a buy or sell at the last close, and keeps the result when
  it is a trade record (it has the key \<open>pnl\<close>). \<open>slippage i\<close> is the slippage drawn in
  step \<open>i\<close>. The strategy and the executor are those of the optimizer and keep their
  state from step to step; an exception of \<open>generate_signal\<close> is not caught.
\<close>

fun replay_loop ::
  "real \<Rightarrow> real \<Rightarrow> (nat \<Rightarrow> real) \<Rightarrow> bar list \<Rightarrow> nat list \<Rightarrow>
   strategy \<times> executor \<times> trade list \<Rightarrow> py_error + strategy \<times> executor \<times> trade list" where
  "replay_loop stop_loss_buffer fee_rate_taker slippage df_sim [] acc = Inr acc"
| "replay_loop stop_loss_buffer fee_rate_taker slippage df_sim (i # is) (st, ex, trades) =
     (let window = take (i + 1) df_sim
      in case generate_signal st stop_loss_buffer window of
           (Inl e, st') \<Rightarrow> Inl e
         | (Inr None, st') \<Rightarrow>
             replay_loop stop_loss_buffer fee_rate_taker slippage df_sim is (st', ex, trades)
         | (Inr (Some sg), st') \<Rightarrow>
             if action sg = ''buy'' \<or> action sg = ''sell'' then
               (case execute_virtual_trade ex fee_rate_taker sg (close (last window))
                       (slippage i) (timestamp (last window)) of
                  (Filled t, ex') \<Rightarrow>
                    replay_loop stop_loss_buffer fee_rate_taker slippage df_sim is
                      (st', ex', trades @ [t])
                | (_, ex') \<Rightarrow>
                    replay_loop stop_loss_buffer fee_rate_taker slippage df_sim is
                      (st', ex', trades))
             else replay_loop stop_loss_buffer fee_rate_taker slippage df_sim is
                    (st', ex, trades))"

definition replay ::
  "strategy \<Rightarrow> executor \<Rightarrow> real \<Rightarrow> real \<Rightarrow> (nat \<Rightarrow> real) \<Rightarrow> bar list \<Rightarrow>
   py_error + strategy \<times> executor \<times> trade list" where
  "replay st ex stop_loss_buffer fee_rate_taker slippage df_sim =
     replay_loop stop_loss_buffer fee_rate_taker slippage df_sim [10..<length df_sim]
       (st, ex, [])"

text \<open>
  \<open>_objective_function(**params)\<close> on a strategy whose configuration already holds the
  parameters, for the bar series \<open>df_sim\<close> that the seeded generator has produced. The
  value is the returned score. (The database write and the best-score pointer that follow
  a feasible score do not change it.)
\<close>

definition objective_function ::
  "strategy \<Rightarrow> executor \<Rightarrow> real \<Rightarrow> real \<Rightarrow> (nat \<Rightarrow> real) \<Rightarrow> bar list \<Rightarrow> py_error + real" where
  "objective_function st ex stop_loss_buffer fee_rate_taker slippage df_sim =
     (case replay st ex stop_loss_buffer fee_rate_taker slippage df_sim of
        Inl e \<Rightarrow> Inl e
      | Inr (st', ex', trades) \<Rightarrow> Inr (objective_score trades))"

section \<open>Properties of the virtual trade simulator\<close>

lemma py_round_100: "py_round 100 4 = 100"
  by (simp add: py_round_def round_half_even_def)

text \<open>The call of a non-hold signal, with the local names of the source eliminated.\<close>

lemma exec_cases:
  assumes "action sg \<noteq> ''hold''"
  shows "execute_virtual_trade ex rate sg price slippage ts =
     (case fill_pnl sg (position_size ex) (position_size ex * rate) (exec_price_of sg price slippage) of
        Inl e \<Rightarrow> (Failed e, ex)
      | Inr p \<Rightarrow>
          (case reason sg of
             None \<Rightarrow> (Failed KeyError, if virtual_balance ex + p < 10 then reset_virtual_account ex else ex)
           | Some r \<Rightarrow>
               (let nb = (if virtual_balance ex + p < 10 then 100 else virtual_balance ex + p);
                    t = \<lparr>trade_id = ''VIRT_'' @ str_int ts, side = action sg, open_time = ts,
                         open_price = py_round (exec_price_of sg price slippage) 4, close_time = ts,
                         close_price = py_round (exec_price_of sg price slippage) 4,
                         pnl = py_round p 6, fee = py_round (position_size ex * rate) 6,
                         net_pnl = py_round (p - position_size ex * rate) 6,
                         balance_after = py_round nb 4, trade_reason = r\<rparr>
                in (Filled t,
                    \<lparr>virtual_balance = nb,
                     virtual_trades = (if virtual_balance ex + p < 10 then [] else virtual_trades ex) @ [t],
                     db_trades = db_trades ex @ [t]\<rparr>))))"
  using assms
  by (simp add: execute_virtual_trade_def Let_def reset_virtual_account_def save_virtual_trade_def
      split: sum.splits option.splits)

text \<open>
  C1. A call with a non-hold signal whose computed pnl would take the balance below 10
  leaves the balance at 100. The reset empties the trade buffer before the record of this
  call is built, so no earlier record survives: when the call returns a record, the buffer
  holds that record alone, the record carries \<open>balance_after = 100\<close>, and it is the record
  handed to the database; when the call fails after the reset, the buffer is empty and
  nothing is persisted.
\<close>

theorem bankruptcy_resets_account:
  assumes "action sg \<noteq> ''hold''"
    and "fill_pnl sg (position_size ex) (position_size ex * rate) (exec_price_of sg price slippage) = Inr p"
    and "virtual_balance ex + p < 10"
    and "execute_virtual_trade ex rate sg price slippage ts = (res, ex')"
  shows "virtual_balance ex' = 100 \<and>
     (case res of
        Filled t \<Rightarrow> balance_after t = 100 \<and> virtual_trades ex' = [t] \<and> db_trades ex' = db_trades ex @ [t]
      | Failed e \<Rightarrow> virtual_trades ex' = [] \<and> db_trades ex' = db_trades ex
      | Ignored \<Rightarrow> False)"
  using assms(2-4) unfolding exec_cases [OF assms(1)]
  by (auto simp: Let_def py_round_100 reset_virtual_account_def split: option.splits)

lemma low_account_pnl:
  "fill_pnl deep_stop_sell (position_size low_account) (position_size low_account * 0.0006)
     (exec_price_of deep_stop_sell 3000 0.001) = Inr (- 8.64576)"
  by (simp add: fill_pnl_def deep_stop_sell_def position_size_def low_account_def
      exec_price_of_def le_f_def py_div_def)

theorem bankruptcy_resets_account_witness:
  "\<exists>t ex'. execute_virtual_trade low_account 0.0006 deep_stop_sell 3000 0.001 1704067200
       = (Filled t, ex') \<and>
     virtual_balance low_account + - 8.64576 < 10 \<and>
     virtual_balance ex' = 100 \<and> balance_after t = 100 \<and> virtual_trades ex' = [t] \<and>
     db_trades ex' = [earlier_trade, t]"
proof -
  have hold: "action deep_stop_sell \<noteq> ''hold''"
    by (simp add: deep_stop_sell_def)
  have low: "virtual_balance low_account + - 8.64576 < 10"
    by (simp add: low_account_def)
  obtain res ex' where run:
    "execute_virtual_trade low_account 0.0006 deep_stop_sell 3000 0.001 1704067200 = (res, ex')"
    by (cases "execute_virtual_trade low_account 0.0006 deep_stop_sell 3000 0.001 1704067200")
  have filled: "\<exists>t. res = Filled t"
    using run unfolding exec_cases [OF hold] low_account_pnl
    by (auto simp: Let_def deep_stop_sell_def)
  then obtain t where res: "res = Filled t" ..
  from bankruptcy_resets_account [OF hold low_account_pnl low run] res
  have "virtual_balance ex' = 100 \<and> balance_after t = 100 \<and> virtual_trades ex' = [t] \<and>
    db_trades ex' = [earlier_trade, t]"
    by (simp add: low_account_def)
  with run res low show ?thesis by blast
qed

text \<open>The pnl of a fill in the branches where neither level, the take-profit level, or the
  stop of a sell is hit.\<close>

lemma fill_pnl_by_design:
  assumes "fill_pnl sg sz f e = Inr p"
    and "stop_loss sg = Some (Some sl)" and "take_profit sg = Some (Some tp)"
  shows "(action sg = ''buy'' \<and> sl < e \<and> e < tp \<longrightarrow> p = 0) \<and>
         (action sg = ''buy'' \<and> sl < e \<and> tp \<le> e \<longrightarrow> p = sz * (e - tp) / e - f) \<and>
         (action sg \<noteq> ''buy'' \<and> e < sl \<and> tp < e \<longrightarrow> p = 0) \<and>
         (action sg \<noteq> ''buy'' \<and> e < sl \<and> e \<le> tp \<longrightarrow> p = sz * (tp - e) / e - f) \<and>
         (action sg \<noteq> ''buy'' \<and> sl \<le> e \<longrightarrow> p = - sz * (e - sl) / e - f)"
  using assms
  by (auto simp: fill_pnl_def le_f_def py_div_def split: if_splits)

text \<open>
  C3, as amended. For a non-hold signal with a positive position size that is filled: the
  recorded fee is \<open>size \<times> fee_rate_taker\<close> rounded to 6 decimals, the recorded pnl is the
  computed pnl rounded to 6 decimals, and the recorded net pnl is \<open>pnl - fee\<close> of the
  unrounded values, rounded to 6 decimals. The balance becomes the old balance plus pnl
  (not net pnl), or 100 when that sum is below 10. The pnl is 0 when neither level is
  reached, \<open>size \<times> distance / exec_price - fee\<close> at the take-profit level, and
  \<open>- size \<times> distance / exec_price - fee\<close> when a sell reaches its stop.
\<close>

theorem recorded_fee_and_net_pnl:
  assumes "action sg \<noteq> ''hold''" and "0 < position_size ex"
    and "execute_virtual_trade ex rate sg price slippage ts = (Filled t, ex')"
  shows "\<exists>p. fill_pnl sg (position_size ex) (position_size ex * rate)
                (exec_price_of sg price slippage) = Inr p \<and>
     fee t = py_round (position_size ex * rate) 6 \<and>
     pnl t = py_round p 6 \<and>
     net_pnl t = py_round (p - position_size ex * rate) 6 \<and>
     virtual_balance ex' = (if virtual_balance ex + p < 10 then 100 else virtual_balance ex + p) \<and>
     (stop_loss sg = Some (Some sl) \<longrightarrow> take_profit sg = Some (Some tp) \<longrightarrow>
        (action sg = ''buy'' \<and> sl < exec_price_of sg price slippage \<and>
           exec_price_of sg price slippage < tp \<longrightarrow> p = 0) \<and>
        (action sg = ''buy'' \<and> sl < exec_price_of sg price slippage \<and>
           tp \<le> exec_price_of sg price slippage \<longrightarrow>
           p = position_size ex * (exec_price_of sg price slippage - tp) /
                 exec_price_of sg price slippage - position_size ex * rate) \<and>
        (action sg \<noteq> ''buy'' \<and> exec_price_of sg price slippage < sl \<and>
           tp < exec_price_of sg price slippage \<longrightarrow> p = 0) \<and>
        (action sg \<noteq> ''buy'' \<and> exec_price_of sg price slippage < sl \<and>
           exec_price_of sg price slippage \<le> tp \<longrightarrow>
           p = position_size ex * (tp - exec_price_of sg price slippage) /
                 exec_price_of sg price slippage - position_size ex * rate) \<and>
        (action sg \<noteq> ''buy'' \<and> sl \<le> exec_price_of sg price slippage \<longrightarrow>
           p = - position_size ex * (exec_price_of sg price slippage - sl) /
                 exec_price_of sg price slippage - position_size ex * rate))"
proof -
  let ?e = "exec_price_of sg price slippage"
  let ?sz = "position_size ex"
  from assms(3) obtain p where p: "fill_pnl sg ?sz (?sz * rate) ?e = Inr p"
    unfolding exec_cases [OF assms(1)] by (auto split: sum.splits)
  from assms(3) have rec: "fee t = py_round (?sz * rate) 6 \<and> pnl t = py_round p 6 \<and>
      net_pnl t = py_round (p - ?sz * rate) 6 \<and>
      virtual_balance ex' = (if virtual_balance ex + p < 10 then 100 else virtual_balance ex + p)"
    unfolding exec_cases [OF assms(1)] p by (auto simp: Let_def split: option.splits)
  show ?thesis
    using p rec fill_pnl_by_design [OF p, of sl tp] by blast
qed

lemma stopped_sell_run:
  "execute_virtual_trade account_20 0.0006 stopped_sell 3000 0.001 1704067200 =
     (Filled stopped_sell_trade,
      \<lparr>virtual_balance = 20.01 + (- 16.008 * (2997 - 2980) / 2997 - 16.008 * 0.0006),
       virtual_trades = [stopped_sell_trade], db_trades = [stopped_sell_trade]\<rparr>)"
  by code_simp

theorem recorded_fee_and_net_pnl_witness:
  "\<exists>ex'. execute_virtual_trade account_20 0.0006 stopped_sell 3000 0.001 1704067200 =
       (Filled stopped_sell_trade, ex') \<and>
     0 < position_size account_20 \<and>
     fee stopped_sell_trade = py_round (16.008 * 0.0006) 6 \<and>
     pnl stopped_sell_trade = py_round (- 16.008 * (2997 - 2980) / 2997 - 16.008 * 0.0006) 6 \<and>
     net_pnl stopped_sell_trade =
       py_round (- 16.008 * (2997 - 2980) / 2997 - 16.008 * 0.0006 - 16.008 * 0.0006) 6 \<and>
     virtual_balance ex' = 20.01 + (- 16.008 * (2997 - 2980) / 2997 - 16.008 * 0.0006)"
proof -
  let ?ex' = "\<lparr>virtual_balance = 20.01 + (- 16.008 * (2997 - 2980) / 2997 - 16.008 * 0.0006),
       virtual_trades = [stopped_sell_trade], db_trades = [stopped_sell_trade]\<rparr>"
  have hold: "action stopped_sell \<noteq> ''hold''"
    by (simp add: stopped_sell_def)
  have size: "position_size account_20 = 16.008"
    by (simp add: position_size_def account_20_def)
  have pos: "0 < position_size account_20"
    by (simp add: size)
  have pv: "fill_pnl stopped_sell (position_size account_20) (position_size account_20 * 0.0006)
      (exec_price_of stopped_sell 3000 0.001) = Inr (- 16.008 * (2997 - 2980) / 2997 - 16.008 * 0.0006)"
    by (simp add: fill_pnl_def stopped_sell_def size exec_price_of_def le_f_def py_div_def)
  from recorded_fee_and_net_pnl [OF hold pos stopped_sell_run, of 2980 2800]
  obtain p where all: "fill_pnl stopped_sell (position_size account_20)
        (position_size account_20 * 0.0006) (exec_price_of stopped_sell 3000 0.001) = Inr p \<and>
      fee stopped_sell_trade = py_round (position_size account_20 * 0.0006) 6 \<and>
      pnl stopped_sell_trade = py_round p 6 \<and>
      net_pnl stopped_sell_trade = py_round (p - position_size account_20 * 0.0006) 6"
    by (elim exE conjE) (rule that, intro conjI)
  from all have p: "fill_pnl stopped_sell (position_size account_20)
        (position_size account_20 * 0.0006) (exec_price_of stopped_sell 3000 0.001) = Inr p"
    by (rule conjunct1)
  from all have r: "fee stopped_sell_trade = py_round (position_size account_20 * 0.0006) 6"
      "pnl stopped_sell_trade = py_round p 6"
      "net_pnl stopped_sell_trade = py_round (p - position_size account_20 * 0.0006) 6"
    by simp_all
  have pe: "p = - 16.008 * (2997 - 2980) / 2997 - 16.008 * 0.0006"
    using p pv by simp
  have big: "execute_virtual_trade account_20 0.0006 stopped_sell 3000 0.001 1704067200 =
       (Filled stopped_sell_trade, ?ex') \<and>
     0 < position_size account_20 \<and>
     fee stopped_sell_trade = py_round (16.008 * 0.0006) 6 \<and>
     pnl stopped_sell_trade = py_round (- 16.008 * (2997 - 2980) / 2997 - 16.008 * 0.0006) 6 \<and>
     net_pnl stopped_sell_trade =
       py_round (- 16.008 * (2997 - 2980) / 2997 - 16.008 * 0.0006 - 16.008 * 0.0006) 6 \<and>
     virtual_balance ?ex' = 20.01 + (- 16.008 * (2997 - 2980) / 2997 - 16.008 * 0.0006)"
  proof (intro conjI)
    show "execute_virtual_trade account_20 0.0006 stopped_sell 3000 0.001 1704067200 =
       (Filled stopped_sell_trade, ?ex')"
      by (rule stopped_sell_run)
    show "0 < position_size account_20" by (rule pos)
    show "fee stopped_sell_trade = py_round (16.008 * 0.0006) 6"
      using r(1) unfolding size .
    show "pnl stopped_sell_trade = py_round (- 16.008 * (2997 - 2980) / 2997 - 16.008 * 0.0006) 6"
      using r(2) unfolding pe .
    show "net_pnl stopped_sell_trade =
       py_round (- 16.008 * (2997 - 2980) / 2997 - 16.008 * 0.0006 - 16.008 * 0.0006) 6"
      using r(3) unfolding pe size .
    show "virtual_balance ?ex' = 20.01 + (- 16.008 * (2997 - 2980) / 2997 - 16.008 * 0.0006)"
      by (simp only: executor.simps)
  qed
  show ?thesis by (rule exI [of _ ?ex']) (rule big)
qed

text \<open>
  C3 as stated fails: with a balance of 20.01 the fee \<open>16.008 \<times> 0.0006 = 0.0096048\<close> is
  recorded as 0.009605, and the recorded net pnl -0.110012 is not the difference
  -0.110013 of the recorded pnl and the recorded fee; and a fill that takes the balance
  below 10 leaves it at 100, not at the old balance plus pnl.
\<close>

theorem recorded_fee_exact_counterexample:
  "fst (execute_virtual_trade account_20 0.0006 stopped_sell 3000 0.001 1704067200) =
     Filled stopped_sell_trade \<and>
   0 < position_size account_20 \<and>
   fee stopped_sell_trade \<noteq> position_size account_20 * 0.0006 \<and>
   net_pnl stopped_sell_trade \<noteq> pnl stopped_sell_trade - fee stopped_sell_trade \<and>
   fill_pnl deep_stop_sell (position_size low_account) (position_size low_account * 0.0006)
     (exec_price_of deep_stop_sell 3000 0.001) = Inr (- 8.64576) \<and>
   virtual_balance
     (snd (execute_virtual_trade low_account 0.0006 deep_stop_sell 3000 0.001 1704067200)) \<noteq>
     virtual_balance low_account + - 8.64576"
proof -
  have a: "fst (execute_virtual_trade account_20 0.0006 stopped_sell 3000 0.001 1704067200) =
     Filled stopped_sell_trade"
    by (subst stopped_sell_run) simp
  have b: "0 < position_size account_20 \<and>
      fee stopped_sell_trade \<noteq> position_size account_20 * 0.0006 \<and>
      net_pnl stopped_sell_trade \<noteq> pnl stopped_sell_trade - fee stopped_sell_trade"
    by (simp add: position_size_def account_20_def stopped_sell_trade_def)
  have c: "fill_pnl deep_stop_sell (position_size low_account) (position_size low_account * 0.0006)
     (exec_price_of deep_stop_sell 3000 0.001) = Inr (- 8.64576)"
    by (simp add: fill_pnl_def deep_stop_sell_def position_size_def low_account_def
      exec_price_of_def le_f_def py_div_def)
  have hold: "action deep_stop_sell \<noteq> ''hold''"
    by (simp add: deep_stop_sell_def)
  have d: "virtual_balance
     (snd (execute_virtual_trade low_account 0.0006 deep_stop_sell 3000 0.001 1704067200)) = 100"
    unfolding exec_cases [OF hold] c by (simp add: Let_def deep_stop_sell_def low_account_def)
  show ?thesis
    using a b c d by (simp add: low_account_def)
qed

text \<open>
  C9. A sell without the key \<open>reason\<close>, on an account that the fill bankrupts: the
  KeyError is raised after \<open>reset_virtual_account\<close> has run. The call returns the error
  result, and the balance is 100 instead of 12 and the buffer is empty instead of holding
  the earlier record.
\<close>

theorem failed_call_after_reset:
  "execute_virtual_trade low_account 0.0006 sell_without_reason 3000 0.001 1704067200
     = (Failed KeyError, \<lparr>virtual_balance = 100, virtual_trades = [], db_trades = [earlier_trade]\<rparr>)
   \<and> virtual_balance low_account = 12 \<and> virtual_trades low_account = [earlier_trade]"
  by (simp add: execute_virtual_trade_def sell_without_reason_def deep_stop_sell_def
      low_account_def fill_pnl_def position_size_def exec_price_of_def le_f_def py_div_def
      reset_virtual_account_def Let_def)

section \<open>Properties of the indicator and signal engines\<close>

subsection \<open>Drift\<close>

lemma is_drift_never: "\<not> is_drift ml sl dp"
  by (auto simp: is_drift_def)

lemma calculate_macd_drift:
  assumes "calculate_macd closes f s g = Inr m"
  shows "\<forall>d \<in> set (col_macd_drift m). d = 0"
  using assms
  by (auto simp: calculate_macd_def Let_def is_drift_never split: if_splits)

lemma in_set_make_rows:
  assumes "r \<in> set (make_rows df m k a)"
  shows "(\<exists>b \<in> set df. high r = high b \<and> low r = low b \<and> close r = close b) \<and>
         macd_drift r \<in> set (col_macd_drift m) \<and> ma45 r \<in> set (col_ma45 a)"
  using assms unfolding make_rows_def
  by (auto elim!: in_set_zipE)

lemma features_cases:
  assumes "add_paferr_features df cfg = Inr rows"
  obtains m k a where
    "calculate_macd (map close df) (macd_fast cfg) (macd_slow cfg) (macd_signal cfg) = Inr m"
    "calculate_kdj (map low df) (map high df) (map close df)
       (kdj_period cfg) (kdj_smooth_k cfg) (kdj_smooth_d cfg) = Inr k"
    "calculate_ma (map close df) (ma_short cfg) (ma_mid cfg) (ma_long cfg) = Inr a"
    "rows = make_rows df m k a"
  using assms unfolding add_paferr_features_def
  by (auto split: sum.splits)

lemma features_drift_zero:
  assumes "add_paferr_features df cfg = Inr rows" and "r \<in> set rows"
  shows "macd_drift r = 0"
proof -
  from assms(1) obtain m k a where
    m: "calculate_macd (map close df) (macd_fast cfg) (macd_slow cfg) (macd_signal cfg) = Inr m"
    and rows: "rows = make_rows df m k a"
    by (rule features_cases)
  from assms(2) rows have "macd_drift r \<in> set (col_macd_drift m)"
    using in_set_make_rows by blast
  with calculate_macd_drift [OF m] show ?thesis by blast
qed

lemma set_tail_rows: "set (tail_rows n xs) \<subseteq> set xs"
  by (auto simp: tail_rows_def dest: in_set_dropD)

lemma sum_list_map_zero: "\<forall>x \<in> set xs. f x = (0::int) \<Longrightarrow> sum_list (map f xs) = 0"
  by (induction xs) auto

lemma drift_accumulation_zero:
  assumes "add_paferr_features df cfg = Inr rows"
  shows "check_drift_accumulation rows = 0"
proof -
  have "\<forall>r \<in> set (tail_rows 5 rows). macd_drift r = 0"
    using features_drift_zero [OF assms] set_tail_rows [of 5 rows] by auto
  then show ?thesis
    unfolding check_drift_accumulation_def by (rule sum_list_map_zero)
qed

text \<open>The call that returns a signal, with the frame and the resonance it has computed.\<close>

lemma generate_signal_emits:
  assumes "generate_signal st buf df0 = (Inr (Some sg), st')"
  obtains df res where
    "50 \<le> length df0"
    "add_paferr_features df0 (config st) = Inr df"
    "check_resonance (config st) df = Inr res"
    "(is_bullish res \<and> check_momentum (config st) df \<and> check_timeliness (config st) df \<and>
        sg = buy_signal buf (last df) (total_resonance res) (check_drift_accumulation df) \<and>
        st' = st\<lparr>last_signal_time := Some (timestamp (last df0))\<rparr>) \<or>
     (\<not> (is_bullish res \<and> check_momentum (config st) df \<and> check_timeliness (config st) df) \<and>
        is_bearish res \<and> check_momentum (config st) df \<and> check_timeliness (config st) df \<and>
        sg = sell_signal buf (last df) (check_drift_accumulation df) \<and>
        st' = st\<lparr>last_signal_time := Some (timestamp (last df0))\<rparr>) \<or>
     (sg = hold_signal \<and> st' = st)"
  using assms unfolding generate_signal_def
  by (auto simp: Let_def split: if_splits sum.splits option.splits)

text \<open>
  C10. The drift flag is 0 in every row of every feature frame, so the drift accumulation
  over the trailing 5 bars is 0; and every buy or sell that \<open>generate_signal\<close> returns
  has leverage 20 and confidence 0.7 (buy) or 0.65 (sell).
\<close>

theorem drift_never_accumulates:
  "(add_paferr_features df cfg = Inr rows \<longrightarrow> check_drift_accumulation rows = 0) \<and>
   (generate_signal st buf df0 = (Inr (Some sg), st') \<longrightarrow> action sg \<noteq> ''hold'' \<longrightarrow>
      leverage sg = Some 20 \<and>
      (action sg = ''buy'' \<longrightarrow> confidence sg = Some 0.7) \<and>
      (action sg = ''sell'' \<longrightarrow> confidence sg = Some 0.65) \<and>
      (action sg = ''buy'' \<or> action sg = ''sell''))"
proof (intro conjI impI)
  assume "add_paferr_features df cfg = Inr rows"
  then show "check_drift_accumulation rows = 0" by (rule drift_accumulation_zero)
next
  assume run: "generate_signal st buf df0 = (Inr (Some sg), st')" and nh: "action sg \<noteq> ''hold''"
  from run obtain rows res where
    f: "add_paferr_features df0 (config st) = Inr rows"
    and c: "sg = buy_signal buf (last rows) (total_resonance res) (check_drift_accumulation rows) \<or>
       sg = sell_signal buf (last rows) (check_drift_accumulation rows) \<or> sg = hold_signal"
    by (rule generate_signal_emits) blast
  have z: "check_drift_accumulation rows = 0"
    using f by (rule drift_accumulation_zero)
  from c nh have sg: "sg = buy_signal buf (last rows) (total_resonance res) 0 \<or>
       sg = sell_signal buf (last rows) 0"
    by (auto simp: z hold_signal_def)
  from sg show "leverage sg = Some 20"
    by (auto simp: buy_signal_def sell_signal_def leverage_of_def)
  from sg show "action sg = ''buy'' \<or> action sg = ''sell''"
    by (auto simp: buy_signal_def sell_signal_def)
  { assume "action sg = ''buy''"
    with sg show "confidence sg = Some 0.7"
      by (auto simp: buy_signal_def sell_signal_def) }
  { assume "action sg = ''sell''"
    with sg show "confidence sg = Some 0.65"
      by (auto simp: buy_signal_def sell_signal_def) }
qed

subsection \<open>Resonance\<close>

text \<open>
  C5. For every resonance dictionary, and so for the one of every evaluation, the count
  of true timeframes is one of 0, 1, 2, 3, 4, and the bullish classification (count at
  least 3) and the bearish one (count 0 and the 4h value Python's \<open>False\<close>) do not hold
  together.
\<close>

theorem resonance_count_range:
  "total_resonance r \<in> {0, 1, 2, 3, 4} \<and> \<not> (is_bullish r \<and> is_bearish r)"
proof -
  have "total_resonance r \<le> 4"
    unfolding total_resonance_def
    by (rule order_trans [OF length_filter_le]) simp
  then have "total_resonance r \<in> {0, 1, 2, 3, 4}"
    by auto
  moreover have "\<not> (is_bullish r \<and> is_bearish r)"
    by (simp add: is_bullish_def is_bearish_def)
  ultimately show ?thesis by simp
qed

subsection \<open>Trend\<close>

text \<open>
  C6, as amended. On a frame of at least 2 rows the trend is true exactly when the last
  close is strictly greater than the last long moving average (which is then not NaN) and
  the last \<open>macd_hist\<close> is strictly greater than 0. A timeframe whose aggregate has
  fewer than 50 bars has the empty frame and contributes Python's \<open>False\<close>.
\<close>

theorem trend_status_strict:
  "(2 \<le> length df \<longrightarrow>
      (truthy (get_trend_status df) \<longleftrightarrow>
         (\<exists>m. ma45 (last df) = Some m \<and> m < close (last df)) \<and> 0 < macd_hist (last df))) \<and>
   (length (resample width bars) < 50 \<longrightarrow>
      timeframe_features width bars cfg = Inr [] \<and> get_trend_status [] = PyBool False \<and>
      \<not> truthy (get_trend_status []))"
  by (auto simp: get_trend_status_def timeframe_features_def lt_f_def Let_def split: option.splits)

subsection \<open>Stops and targets\<close>

lemma agg_mean_nonneg: "\<forall>x \<in> set ws. 0 \<le> x \<Longrightarrow> 0 \<le> agg_mean ws"
  by (simp add: agg_mean_def sum_list_nonneg)

lemma rolling_acc_mean_nonneg:
  assumes "\<forall>x \<in> set seen \<union> set xs. 0 \<le> x" and "Some v \<in> set (rolling_acc agg_mean w seen xs)"
  shows "0 \<le> v"
  using assms
proof (induction xs arbitrary: seen)
  case Nil
  then show ?case by simp
next
  case (Cons x xs)
  from Cons.prems(2) consider
    (here) "0 < w" "nat w \<le> length (x # seen)" "v = agg_mean (take (nat w) (x # seen))"
    | (later) "Some v \<in> set (rolling_acc agg_mean w (x # seen) xs)"
    by (auto split: if_splits)
  then show ?case
  proof cases
    case here
    have "\<forall>y \<in> set (take (nat w) (x # seen)). 0 \<le> y"
      using Cons.prems(1) by (auto dest!: in_set_takeD)
    then show ?thesis
      unfolding here(3) by (rule agg_mean_nonneg)
  next
    case later
    have "\<forall>y \<in> set (x # seen) \<union> set xs. 0 \<le> y"
      using Cons.prems(1) by auto
    from Cons.IH [OF this later] show ?thesis .
  qed
qed

lemma calculate_ma_nonneg:
  assumes "calculate_ma closes s m l = Inr a" and "\<forall>c \<in> set closes. 0 \<le> c"
    and "Some v \<in> set (col_ma45 a)"
  shows "0 \<le> v"
proof -
  from assms(1,3) have "Some v \<in> set (rolling_acc agg_mean l [] closes)"
    by (auto simp: calculate_ma_def Let_def rolling_def split: if_splits)
  with assms(2) show ?thesis
    using rolling_acc_mean_nonneg [of "[]" closes v l] by simp
qed

lemma length_filter_all:
  "length (filter P xs) = length xs \<Longrightarrow> \<forall>x \<in> set xs. P x"
proof (induction xs)
  case Nil
  then show ?case by simp
next
  case (Cons x xs)
  have le: "length (filter P xs) \<le> length xs" by (rule length_filter_le)
  show ?case
  proof (cases "P x")
    case True
    with Cons.prems have "length (filter P xs) = length xs" by simp
    from Cons.IH [OF this] True show ?thesis by simp
  next
    case False
    with Cons.prems have "length (filter P xs) = Suc (length xs)" by simp
    with le show ?thesis by simp
  qed
qed

lemma timely_last:
  assumes "check_timeliness cfg df" and "1 \<le> max_klines_for_resonance cfg"
  shows "df \<noteq> [] \<and> lt_f (ma45 (last df)) (Some (close (last df)))"
proof -
  let ?n = "max_klines_for_resonance cfg"
  let ?P = "\<lambda>r. lt_f (ma45 r) (Some (close r))"
  let ?t = "drop (length df - nat ?n) df"
  from assms(2) have t: "tail_rows ?n df = ?t"
    by (simp add: tail_rows_def)
  from assms(1) have count: "?n \<le> int (length (filter ?P ?t))"
    unfolding check_timeliness_def t .
  have "length (filter ?P ?t) \<le> length ?t" by (rule length_filter_le)
  moreover have "length ?t \<le> nat ?n" by simp
  ultimately have len: "length (filter ?P ?t) = length ?t" "length ?t = nat ?n"
    using count by linarith+
  from len(2) assms(2) have ne: "?t \<noteq> []" by auto
  then have dfne: "df \<noteq> []" by auto
  from ne have "length df - nat ?n < length df" by simp
  then have "last ?t = last df" by (rule last_drop)
  moreover from ne have "last ?t \<in> set ?t" by (rule last_in_set)
  ultimately have "?P (last df)"
    using length_filter_all [OF len(1)] by auto
  with dfne show ?thesis by simp
qed

text \<open>
  C7, as amended. Every buy that \<open>generate_signal\<close> returns has its stop-loss strictly
  below its take-profit, when the buffer is not negative, the timeliness window has at
  least one bar, and every bar of the frame has a close that is not negative and a high that
  is not below its low or its close.
\<close>

theorem buy_stop_below_target:
  assumes "generate_signal st stop_loss_buffer df0 = (Inr (Some sg), st')"
    and "action sg = ''buy''"
    and "0 \<le> stop_loss_buffer"
    and "1 \<le> max_klines_for_resonance (config st)"
    and "\<forall>b \<in> set df0. 0 \<le> close b \<and> low b \<le> high b \<and> close b \<le> high b"
  shows "\<exists>sl tp. stop_loss sg = Some (Some sl) \<and> take_profit sg = Some (Some tp) \<and> sl < tp"
proof -
  from assms(1) obtain df res where
    f: "add_paferr_features df0 (config st) = Inr df"
    and c: "(check_timeliness (config st) df \<and>
        sg = buy_signal stop_loss_buffer (last df) (total_resonance res)
               (check_drift_accumulation df)) \<or>
       sg = sell_signal stop_loss_buffer (last df) (check_drift_accumulation df) \<or>
       sg = hold_signal"
    by (rule generate_signal_emits) blast
  from c assms(2) have timely: "check_timeliness (config st) df"
    and sg: "sg = buy_signal stop_loss_buffer (last df) (total_resonance res)
               (check_drift_accumulation df)"
    by (auto simp: sell_signal_def hold_signal_def)
  from timely_last [OF timely assms(4)] obtain m where
    ne: "df \<noteq> []" and m: "ma45 (last df) = Some m" and above: "m < close (last df)"
    by (auto simp: lt_f_def split: option.splits)
  from f obtain mc kc ac where
    a: "calculate_ma (map close df0) (ma_short (config st)) (ma_mid (config st))
          (ma_long (config st)) = Inr ac"
    and rows: "df = make_rows df0 mc kc ac"
    by (rule features_cases)
  from ne have "last df \<in> set (make_rows df0 mc kc ac)"
    unfolding rows [symmetric] by (rule last_in_set)
  from in_set_make_rows [OF this] obtain b where
    b: "b \<in> set df0" "high (last df) = high b" "low (last df) = low b"
       "close (last df) = close b"
    and in45: "ma45 (last df) \<in> set (col_ma45 ac)"
    by blast
  have "\<forall>c \<in> set (map close df0). 0 \<le> c"
    using assms(5) by auto
  from calculate_ma_nonneg [OF a this] in45 m have m0: "0 \<le> m" by simp
  from assms(5) b have wf: "low (last df) \<le> high (last df)" "close (last df) \<le> high (last df)"
    by auto
  have "m * (1 - stop_loss_buffer) \<le> m"
    using m0 assms(3) by (simp add: mult_left_le)
  also have "m < high (last df) + 1.5 * (high (last df) - low (last df))"
    using above wf by (simp add: field_simps)
  finally have "m * (1 - stop_loss_buffer) < high (last df) + 1.5 * (high (last df) - low (last df))" .
  then show ?thesis
    by (simp add: sg buy_signal_def m)
qed

subsection \<open>Cooldown\<close>

lemma generate_signal_cooldown_kept:
  "signal_cooldown (snd (generate_signal st buf df)) = signal_cooldown st"
  by (simp add: generate_signal_def Let_def split: sum.splits option.splits)

lemma generate_signal_order_time:
  assumes "is_order (fst (generate_signal st buf df))"
  shows "last_signal_time (snd (generate_signal st buf df)) = Some (timestamp (last df))"
  using assms
  by (auto simp: generate_signal_def Let_def is_order_def hold_signal_def
      split: sum.splits option.splits if_splits)

lemma generate_signal_time_mono:
  assumes "last_signal_time st = Some t" and "0 \<le> signal_cooldown st"
  shows "\<exists>t'. t \<le> t' \<and> last_signal_time (snd (generate_signal st buf df)) = Some t'"
  using assms
  by (auto simp: generate_signal_def Let_def split: sum.splits option.splits)

lemma generate_signal_suppressed:
  assumes "last_signal_time st = Some t" and "timestamp (last df) - t < signal_cooldown st"
  shows "fst (generate_signal st buf df) = Inr None \<or>
         (\<exists>e. fst (generate_signal st buf df) = Inl e)"
  using assms
  by (auto simp: generate_signal_def Let_def split: sum.splits)

lemma later_call_suppressed:
  assumes "last_signal_time st = Some t" and "t0 \<le> t" and "0 \<le> signal_cooldown st"
    and "j < length calls" and "call_time (calls ! j) - t0 < signal_cooldown st"
  shows "run_calls st calls ! j = Inr None \<or> (\<exists>e. run_calls st calls ! j = Inl e)"
  using assms
proof (induction calls arbitrary: st t j)
  case Nil
  then show ?case by simp
next
  case (Cons c calls)
  obtain cfg buf df where c: "c = (cfg, buf, df)" by (cases c)
  let ?st = "st\<lparr>config := cfg\<rparr>"
  have lst: "last_signal_time ?st = Some t" and cd: "signal_cooldown ?st = signal_cooldown st"
    using Cons.prems(1) by simp_all
  show ?case
  proof (cases j)
    case 0
    with Cons.prems(5) c have "timestamp (last df) - t0 < signal_cooldown st"
      by (simp add: call_time_def)
    with Cons.prems(2) have "timestamp (last df) - t < signal_cooldown ?st"
      by (simp add: cd)
    from generate_signal_suppressed [OF lst this, of buf] show ?thesis
      by (simp add: c 0)
  next
    case (Suc j')
    let ?st1 = "snd (generate_signal ?st buf df)"
    from generate_signal_time_mono [OF lst, of buf df] Cons.prems(3) obtain t' where
      t': "t \<le> t'" "last_signal_time ?st1 = Some t'"
      by (auto simp: cd)
    have cd1: "signal_cooldown ?st1 = signal_cooldown st"
      by (simp add: generate_signal_cooldown_kept)
    have "run_calls ?st1 calls ! j' = Inr None \<or> (\<exists>e. run_calls ?st1 calls ! j' = Inl e)"
    proof (rule Cons.IH [OF t'(2)])
      show "t0 \<le> t'" using Cons.prems(2) t'(1) by simp
      show "0 \<le> signal_cooldown ?st1" using Cons.prems(3) by (simp add: cd1)
      show "j' < length calls" using Cons.prems(4) Suc by simp
      show "call_time (calls ! j') - t0 < signal_cooldown ?st1"
        using Cons.prems(5) Suc by (simp add: cd1)
    qed
    then show ?thesis by (simp add: c Suc)
  qed
qed

text \<open>
  C2. Of two calls on one instance whose bar times are less than 15 minutes apart, when
  the earlier one has returned a buy or a sell, the later one returns no order: it returns
  no-signal, or it raises (the features are computed before the cooldown test, and an
  invalid configuration makes them raise).
\<close>

theorem cooldown_suppresses_second_order:
  assumes "signal_cooldown st = 900" and "i < j" and "j < length calls"
    and "is_order (run_calls st calls ! i)"
    and "\<bar>call_time (calls ! j) - call_time (calls ! i)\<bar> < 900"
  shows "\<not> is_order (run_calls st calls ! j) \<and>
         (run_calls st calls ! j = Inr None \<or> (\<exists>e. run_calls st calls ! j = Inl e))"
proof -
  have "run_calls st calls ! j = Inr None \<or> (\<exists>e. run_calls st calls ! j = Inl e)"
    using assms
  proof (induction calls arbitrary: st i j)
    case Nil
    then show ?case by simp
  next
    case (Cons c calls)
    obtain cfg buf df where c: "c = (cfg, buf, df)" by (cases c)
    let ?st = "st\<lparr>config := cfg\<rparr>"
    let ?st1 = "snd (generate_signal ?st buf df)"
    have cd1: "signal_cooldown ?st1 = 900"
      using Cons.prems(1) by (simp add: generate_signal_cooldown_kept)
    from Cons.prems(2) obtain j' where j: "j = Suc j'" by (cases j) auto
    show ?case
    proof (cases i)
      case 0
      with Cons.prems(4) have "is_order (fst (generate_signal ?st buf df))"
        by (simp add: c)
      then have lst: "last_signal_time ?st1 = Some (timestamp (last df))"
        by (rule generate_signal_order_time)
      have "run_calls ?st1 calls ! j' = Inr None \<or> (\<exists>e. run_calls ?st1 calls ! j' = Inl e)"
      proof (rule later_call_suppressed [OF lst])
        show "timestamp (last df) \<le> timestamp (last df)" by simp
        show "0 \<le> signal_cooldown ?st1" by (simp add: cd1)
        show "j' < length calls" using Cons.prems(3) j by simp
        show "call_time (calls ! j') - timestamp (last df) < signal_cooldown ?st1"
          using Cons.prems(5) by (simp add: cd1 j 0 c call_time_def)
      qed
      then show ?thesis by (simp add: c j)
    next
      case (Suc i')
      have "run_calls ?st1 calls ! j' = Inr None \<or> (\<exists>e. run_calls ?st1 calls ! j' = Inl e)"
      proof (rule Cons.IH [OF cd1])
        show "i' < j'" using Cons.prems(2) j Suc by simp
        show "j' < length calls" using Cons.prems(3) j by simp
        show "is_order (run_calls ?st1 calls ! i')"
          using Cons.prems(4) by (simp add: c Suc)
        show "\<bar>call_time (calls ! j') - call_time (calls ! i')\<bar> < 900"
          using Cons.prems(5) by (simp add: j Suc)
      qed
      then show ?thesis by (simp add: c j)
    qed
  qed
  then show ?thesis
    by (auto simp: is_order_def)
qed

subsection \<open>Objective\<close>

text \<open>
  C8, as amended. When the replay returns, the objective returns -1 if it has collected
  fewer than 5 trades; with 5 trades or more it returns -1 as well if the standard
  deviation of the returns is 0, and \<open>0.7 sharpe + 0.3 win_rate\<close> otherwise.
\<close>

theorem objective_sentinel:
  assumes "replay st ex buf rate slippage df_sim = Inr (st', ex', trades)"
  shows "(length trades < 5 \<longrightarrow>
            objective_function st ex buf rate slippage df_sim = Inr (- 1)) \<and>
         (5 \<le> length trades \<longrightarrow> np_std (map (\<lambda>p. p / 100) (map net_pnl trades)) = 0 \<longrightarrow>
            objective_function st ex buf rate slippage df_sim = Inr (- 1)) \<and>
         (5 \<le> length trades \<longrightarrow> np_std (map (\<lambda>p. p / 100) (map net_pnl trades)) \<noteq> 0 \<longrightarrow>
            objective_function st ex buf rate slippage df_sim =
              Inr (0.7 * (np_mean (map (\<lambda>p. p / 100) (map net_pnl trades)) /
                          (np_std (map (\<lambda>p. p / 100) (map net_pnl trades)) + 1 / 10 ^ 8) *
                          sqrt (252 * 4)) +
                   0.3 * (of_nat (length (filter (\<lambda>p. 0 < p) (map net_pnl trades))) /
                          of_nat (length (map net_pnl trades)))))"
proof -
  let ?returns = "map (\<lambda>p. p / 100) (map net_pnl trades)"
  have o: "objective_function st ex buf rate slippage df_sim = Inr (objective_score trades)"
    using assms by (simp add: objective_function_def)
  show ?thesis
  proof (intro conjI impI)
    assume "length trades < 5"
    then show "objective_function st ex buf rate slippage df_sim = Inr (- 1)"
      by (simp add: o objective_score_def)
  next
    assume "5 \<le> length trades" and "np_std ?returns = 0"
    then show "objective_function st ex buf rate slippage df_sim = Inr (- 1)"
      by (simp add: o objective_score_def Let_def)
  next
    assume "5 \<le> length trades" and "np_std ?returns \<noteq> 0"
    then have "\<not> length trades < 5" and "\<not> (length ?returns = 0 \<or> np_std ?returns = 0)"
      by auto
    then show "objective_function st ex buf rate slippage df_sim =
              Inr (0.7 * (np_mean ?returns / (np_std ?returns + 1 / 10 ^ 8) * sqrt (252 * 4)) +
                   0.3 * (of_nat (length (filter (\<lambda>p. 0 < p) (map net_pnl trades))) /
                          of_nat (length (map net_pnl trades))))"
      unfolding o objective_score_def Let_def by (simp only: if_False)
  qed
qed

section \<open>Feature frames, aggregates and prefixes\<close>

subsection \<open>The shape of a feature frame\<close>

lemma length_ewm_from [simp]: "length (ewm_from a y xs) = length xs"
  by (induction xs arbitrary: y) (simp_all add: Let_def)

lemma length_ewm_mean [simp]: "length (ewm_mean a xs) = length xs"
  by (cases xs) simp_all

lemma length_ewm_na [simp]: "length (ewm_na a w old_wt xs) = length xs"
  by (induction a w old_wt xs rule: ewm_na.induct) (simp_all add: Let_def)

lemma length_shift1 [simp]: "length (shift1 xs) = length xs"
  by (cases xs) (simp_all add: shift1_def)

lemma length_rolling_acc [simp]: "length (rolling_acc agg w seen xs) = length xs"
  by (induction xs arbitrary: seen) simp_all

lemma length_rolling [simp]: "length (rolling agg w xs) = length xs"
  by (simp add: rolling_def)

lemma calculate_macd_lengths:
  assumes "calculate_macd closes f s g = Inr m"
  shows "length (col_macd_line m) = length closes \<and> length (col_macd_signal m) = length closes \<and>
         length (col_macd_hist m) = length closes \<and> length (col_macd_drift m) = length closes \<and>
         length (col_macd_momentum_pct m) = length closes"
  using assms by (auto simp: calculate_macd_def Let_def split: if_splits)

lemma calculate_kdj_lengths:
  assumes "calculate_kdj lows highs closes p sk sd = Inr k"
    and "length lows = length closes" and "length highs = length closes"
  shows "length (col_kdj_k k) = length closes \<and> length (col_kdj_d k) = length closes \<and>
         length (col_kdj_j k) = length closes \<and> length (col_kdj_k_slope k) = length closes"
  using assms by (auto simp: calculate_kdj_def Let_def split: if_splits)

lemma calculate_ma_lengths:
  assumes "calculate_ma closes s m l = Inr a"
  shows "length (col_ma5 a) = length closes \<and> length (col_ma10 a) = length closes \<and>
         length (col_ma45 a) = length closes \<and> length (col_ma45_stable a) = length closes"
  using assms by (auto simp: calculate_ma_def Let_def split: if_splits)

lemma features_ok:
  assumes "config_ok cfg"
  shows "\<exists>rows. add_paferr_features df cfg = Inr rows"
  using assms
  by (simp add: config_ok_def add_paferr_features_def calculate_macd_def calculate_kdj_def
      calculate_ma_def Let_def)

text \<open>The bars of a feature frame are the bars it was computed from.\<close>

lemma truncate_fields [simp]:
  "timestamp (bar.truncate r) = timestamp r" "bar_open (bar.truncate r) = bar_open r"
  "high (bar.truncate r) = high r" "low (bar.truncate r) = low r"
  "close (bar.truncate r) = close r" "volume (bar.truncate r) = volume r"
  by (simp_all add: bar.truncate_def)

lemma truncate_bar [simp]: "bar.truncate (b :: bar) = b"
  by (cases b) (simp add: bar.truncate_def)

lemma map_truncate_bars [simp]: "map bar.truncate (df :: bar list) = df"
  by (induction df) simp_all

lemma make_rows_truncate:
  assumes "length (col_macd_line m) = length df" "length (col_macd_signal m) = length df"
    "length (col_macd_hist m) = length df" "length (col_macd_drift m) = length df"
    "length (col_macd_momentum_pct m) = length df"
    "length (col_kdj_k k) = length df" "length (col_kdj_d k) = length df"
    "length (col_kdj_j k) = length df" "length (col_kdj_k_slope k) = length df"
    "length (col_ma5 a) = length df" "length (col_ma10 a) = length df"
    "length (col_ma45 a) = length df" "length (col_ma45_stable a) = length df"
  shows "map bar.truncate (make_rows df m k a) = map bar.truncate df"
proof -
  let ?z = "zip (zip (col_macd_line m) (zip (col_macd_signal m) (zip (col_macd_hist m)
                    (zip (col_macd_drift m) (col_macd_momentum_pct m)))))
               (zip (zip (col_kdj_k k) (zip (col_kdj_d k) (zip (col_kdj_j k)
                       (col_kdj_k_slope k))))
                  (zip (col_ma5 a) (zip (col_ma10 a) (zip (col_ma45 a)
                     (col_ma45_stable a)))))"
  have len: "length ?z = length df"
    using assms by simp
  have "map bar.truncate (make_rows df m k a) = map (\<lambda>p. bar.truncate (fst p)) (zip df ?z)"
    unfolding make_rows_def by (simp add: bar.truncate_def case_prod_beta)
  also have "\<dots> = map bar.truncate (map fst (zip df ?z))"
    by (simp add: o_def)
  also have "\<dots> = map bar.truncate df"
    using len by (simp only: map_fst_zip)
  finally show ?thesis .
qed

lemma features_bars:
  assumes "add_paferr_features df cfg = Inr rows"
  shows "map bar.truncate rows = map bar.truncate df"
proof -
  from assms obtain m k a where
    m: "calculate_macd (map close df) (macd_fast cfg) (macd_slow cfg) (macd_signal cfg) = Inr m"
    and k: "calculate_kdj (map low df) (map high df) (map close df)
       (kdj_period cfg) (kdj_smooth_k cfg) (kdj_smooth_d cfg) = Inr k"
    and a: "calculate_ma (map close df) (ma_short cfg) (ma_mid cfg) (ma_long cfg) = Inr a"
    and rows: "rows = make_rows df m k a"
    by (rule features_cases)
  show ?thesis
    unfolding rows
    using calculate_macd_lengths [OF m] calculate_kdj_lengths [OF k] calculate_ma_lengths [OF a]
    by (intro make_rows_truncate) simp_all
qed

lemma features_length:
  assumes "add_paferr_features df cfg = Inr rows"
  shows "length rows = length df"
  using features_bars [OF assms, THEN arg_cong, of length] by simp

lemma features_last:
  assumes "add_paferr_features df cfg = Inr rows" and "df \<noteq> []"
  shows "bar.truncate (last rows) = bar.truncate (last df)"
proof -
  from features_length [OF assms(1)] assms(2) have "rows \<noteq> []" by auto
  with assms(2) features_bars [OF assms(1)] show ?thesis
    by (metis last_map)
qed

subsection \<open>Resampling\<close>

lemma resample_truncate: "resample w df = resample w (map bar.truncate df)"
proof -
  let ?bin = "\<lambda>b :: 'a bar_scheme. timestamp b div w"
  let ?bin' = "\<lambda>b :: bar. timestamp b div w"
  have keys: "map ?bin' (map bar.truncate df) = map ?bin df"
    by simp
  have "map (\<lambda>k. let g = filter (\<lambda>b. ?bin b = k) df
               in \<lparr>timestamp = k * w, bar_open = bar_open (hd g),
                   high = Max (set (map high g)), low = Min (set (map low g)),
                   close = close (last g), volume = sum_list (map volume g)\<rparr>)
           (sort (remdups (map ?bin df))) =
        map (\<lambda>k. let g = filter (\<lambda>b. ?bin' b = k) (map bar.truncate df)
               in \<lparr>timestamp = k * w, bar_open = bar_open (hd g),
                   high = Max (set (map high g)), low = Min (set (map low g)),
                   close = close (last g), volume = sum_list (map volume g)\<rparr>)
           (sort (remdups (map ?bin df)))"
  proof (rule map_cong [OF refl])
    fix k assume "k \<in> set (sort (remdups (map ?bin df)))"
    then have ne: "filter (\<lambda>b. ?bin b = k) df \<noteq> []"
      by (auto simp: filter_empty_conv)
    have f: "filter (\<lambda>b. ?bin' b = k) (map bar.truncate df) =
             map bar.truncate (filter (\<lambda>b. ?bin b = k) df)"
      by (simp add: filter_map o_def)
    show "(let g = filter (\<lambda>b. ?bin b = k) df
               in \<lparr>timestamp = k * w, bar_open = bar_open (hd g),
                   high = Max (set (map high g)), low = Min (set (map low g)),
                   close = close (last g), volume = sum_list (map volume g)\<rparr>) =
          (let g = filter (\<lambda>b. ?bin' b = k) (map bar.truncate df)
               in \<lparr>timestamp = k * w, bar_open = bar_open (hd g),
                   high = Max (set (map high g)), low = Min (set (map low g)),
                   close = close (last g), volume = sum_list (map volume g)\<rparr>)"
      unfolding f Let_def using ne
      by (simp add: hd_map last_map o_def)
  qed
  then show ?thesis
    unfolding resample_def keys .
qed

lemma resample_features:
  assumes "add_paferr_features (df :: bar list) cfg = Inr rows"
  shows "resample w rows = resample w df"
  using resample_truncate [of w rows] features_bars [OF assms] by simp

lemma length_resample: "length (resample w df) = card ((\<lambda>b. timestamp b div w) ` set df)"
  by (simp add: resample_def length_remdups_card_conv)

lemma resample_short:
  assumes "\<forall>b \<in> set df. lo \<le> timestamp b div w \<and> timestamp b div w < lo + 49"
  shows "length (resample w df) < 50"
proof -
  have "(\<lambda>b. timestamp b div w) ` set df \<subseteq> {lo..<lo + 49}"
    using assms by auto
  then have "card ((\<lambda>b. timestamp b div w) ` set df) \<le> card {lo..<lo + 49}"
    by (intro card_mono) simp_all
  then show ?thesis
    by (simp add: length_resample)
qed

lemma filter_key_singleton:
  assumes "distinct (map f xs)" and "x \<in> set xs"
  shows "filter (\<lambda>y. f y = f x) xs = [x]"
  using assms
proof (induction xs)
  case Nil
  then show ?case by simp
next
  case (Cons y ys)
  show ?case
  proof (cases "x = y")
    case True
    have "\<forall>z \<in> set ys. f z \<noteq> f y"
      using Cons.prems(1) by (auto simp: image_iff)
    then have "filter (\<lambda>z. f z = f y) ys = []"
      by (simp add: filter_empty_conv)
    with True show ?thesis by simp
  next
    case False
    with Cons.prems have "x \<in> set ys" and "f y \<noteq> f x" by auto
    with Cons.IH Cons.prems(1) show ?thesis by simp
  qed
qed

text \<open>Bars in ascending bins, one bar to a bin, each at the start of its bin: the
  aggregate is the frame itself.\<close>

lemma resample_id:
  fixes df :: "bar list"
  assumes "sorted_wrt (<) (map (\<lambda>b. timestamp b div w) df)"
    and "\<forall>b \<in> set df. timestamp b div w * w = timestamp b"
  shows "resample w df = df"
proof -
  let ?bin = "\<lambda>b :: bar. timestamp b div w"
  from assms(1) have d: "distinct (map ?bin df)" and s: "sorted (map ?bin df)"
    by (simp_all add: strict_sorted_iff)
  have keys: "sort (remdups (map ?bin df)) = map ?bin df"
    using d s by (simp add: sorted_sort_id)
  have "resample w df =
     map (\<lambda>b. let g = filter (\<lambda>b'. ?bin b' = ?bin b) df
               in \<lparr>timestamp = ?bin b * w, bar_open = bar_open (hd g),
                   high = Max (set (map high g)), low = Min (set (map low g)),
                   close = close (last g), volume = sum_list (map volume g)\<rparr>) df"
    unfolding resample_def keys by (simp add: o_def)
  also have "\<dots> = map (\<lambda>b. b) df"
  proof (rule map_cong [OF refl])
    fix b assume b: "b \<in> set df"
    from assms(2) b have ts: "timestamp b div w * w = timestamp b" by blast
    have g: "filter (\<lambda>b'. ?bin b' = ?bin b) df = [b]"
      using d b by (rule filter_key_singleton)
    show "(let g = filter (\<lambda>b'. ?bin b' = ?bin b) df
               in \<lparr>timestamp = ?bin b * w, bar_open = bar_open (hd g),
                   high = Max (set (map high g)), low = Min (set (map low g)),
                   close = close (last g), volume = sum_list (map volume g)\<rparr>) = b"
      unfolding g Let_def using ts by (cases b) simp
  qed
  finally show ?thesis by simp
qed

end
